theory Spec2Isabelle
  imports Main
begin

section \<open>Values, devices and exceptions\<close>

text \<open>
  A \<open>torch.device\<close>, as far as \<open>data_parallel.py\<close> compares devices: the CPU or
  the CUDA device of an index (\<open>torch.device('cuda:{}'.format(i))\<close> is \<open>CUDA i\<close>).
\<close>

datatype device = CPU | CUDA int

text \<open>
  Python values that travel through the wrapper. Tensors, DataContainers and other
  framework objects are opaque (\<open>PObj\<close>); dictionaries are association lists with string
  keys, as keyword dictionaries are.
\<close>

datatype 'a pyval =
    PNone
  | PInt int
  | PStr string
  | PTuple "'a pyval list"
  | PList "'a pyval list"
  | PDict "(string \<times> 'a pyval) list"
  | PObj 'a

type_synonym 'a args = "'a pyval list"
type_synonym 'a kwargs = "(string \<times> 'a pyval) list"

text \<open>
  The exceptions the module raises itself or through Python's own operations.
  \<open>RuntimeError src found\<close> is the error of the parameter/buffer device check, with the two
  devices of its message; \<open>OtherError\<close> is any other exception class a framework call raises.
\<close>

datatype error =
    AssertionError
  | RuntimeError device device
  | IndexError
  | TypeError
  | AttributeError
  | OtherError string

section \<open>The instance and the host framework\<close>

text \<open>
  The attributes \<open>__init__\<close> sets on an \<open>MMDataParallel\<close> object. \<open>output_device\<close> and
  \<open>src_device_obj\<close> are \<open>None\<close> while the attribute does not exist (the early return of
  \<open>__init__\<close> without CUDA leaves them unset). \<open>module\<close> is a handle of the wrapped
  \<open>nn.Module\<close>; its parameters and buffers live in the framework's state.
\<close>

record 'm MMDataParallel =
  module :: 'm
  device_ids :: "int list"
  dim :: int
  output_device :: "int option"
  src_device_obj :: "device option"

text \<open>
  Everything \<open>data_parallel.py\<close> imports or inherits and does not define is a parameter:
  \<open>torch.cuda\<close>, \<open>_get_device_index\<close>, \<open>_check_balance\<close>, the wrapped module's methods,
  \<open>scatter_kwargs\<close> of \<open>scatter_gather.py\<close> and the inherited \<open>replicate\<close>,
  \<open>parallel_apply\<close> and \<open>gather\<close> of \<open>DataParallel\<close> (which receive \<open>self\<close>).
  Each call may raise and may change the framework's state \<open>'w\<close>.
  \<open>scatter_kwargs\<close> returns a pair of tuples: one tuple of positional arguments and one
  keyword dictionary per target device. \<open>parameters\<close> and \<open>buffers\<close> list \<open>t.device\<close>
  of each tensor \<open>t\<close> they yield. \<open>module_train_step\<close> and \<open>module_val_step\<close> are
  \<open>None\<close> when the wrapped module has no such attribute.
\<close>

record ('a, 'm, 'w) framework =
  cuda_is_available :: bool
  cuda_device_count :: nat
  get_device_index :: "'a pyval \<Rightarrow> error + int"
  check_balance :: "int list \<Rightarrow> 'w \<Rightarrow> (error + unit) \<times> 'w"
  module_cuda :: "'m \<Rightarrow> 'a pyval \<Rightarrow> 'w \<Rightarrow> (error + unit) \<times> 'w"
  parameters :: "'m \<Rightarrow> 'w \<Rightarrow> device list"
  buffers :: "'m \<Rightarrow> 'w \<Rightarrow> device list"
  scatter_kwargs :: "'a args \<Rightarrow> 'a kwargs \<Rightarrow> 'a pyval \<Rightarrow> int \<Rightarrow> 'w
    \<Rightarrow> (error + ('a args list \<times> 'a kwargs list)) \<times> 'w"
  replicate_module :: "'m MMDataParallel \<Rightarrow> 'm \<Rightarrow> int list \<Rightarrow> 'w \<Rightarrow> (error + 'm list) \<times> 'w"
  parallel_apply :: "'m MMDataParallel \<Rightarrow> 'm list \<Rightarrow> 'a args list \<Rightarrow> 'a kwargs list \<Rightarrow> 'w
    \<Rightarrow> (error + 'a pyval list) \<times> 'w"
  gather :: "'m MMDataParallel \<Rightarrow> 'a pyval list \<Rightarrow> int \<Rightarrow> 'w \<Rightarrow> (error + 'a pyval) \<times> 'w"
  module_forward :: "'m \<Rightarrow> 'a args \<Rightarrow> 'a kwargs \<Rightarrow> 'w \<Rightarrow> (error + 'a pyval) \<times> 'w"
  module_train_step :: "'m \<Rightarrow> ('a args \<Rightarrow> 'a kwargs \<Rightarrow> 'w \<Rightarrow> (error + 'a pyval) \<times> 'w) option"
  module_val_step :: "'m \<Rightarrow> ('a args \<Rightarrow> 'a kwargs \<Rightarrow> 'w \<Rightarrow> (error + 'a pyval) \<times> 'w) option"

section \<open>Effects: framework state and the log of calls\<close>

text \<open>One entry per call that leaves \<open>data_parallel.py\<close>, with the arguments passed.\<close>

datatype ('a, 'm) event =
    Scatter_kwargs "'a args" "'a kwargs" "'a pyval" int
  | Replicate 'm "int list"
  | Parallel_apply "'m list" "'a args list" "'a kwargs list"
  | Gather "'a pyval list" int
  | Module_call 'm "'a args" "'a kwargs"
  | Module_train_step 'm "'a args" "'a kwargs"
  | Module_val_step 'm "'a args" "'a kwargs"
  | Module_cuda 'm "'a pyval"
  | Check_balance "int list"

record ('a, 'm, 'w) state =
  world :: 'w
  calls :: "('a, 'm) event list"

type_synonym ('r, 's) prog = "'s \<Rightarrow> (error + 'r) \<times> 's"

definition ret :: "'r \<Rightarrow> ('r, 's) prog" where
  "ret x = (\<lambda>s. (Inr x, s))"

definition raise :: "error \<Rightarrow> ('r, 's) prog" where
  "raise e = (\<lambda>s. (Inl e, s))"

definition andthen :: "('r, 's) prog \<Rightarrow> ('r \<Rightarrow> ('q, 's) prog) \<Rightarrow> ('q, 's) prog" where
  "andthen m f = (\<lambda>s. case m s of (Inl e, s') \<Rightarrow> (Inl e, s') | (Inr x, s') \<Rightarrow> f x s')"

text \<open>A pure step that may raise (\<open>_get_device_index\<close>).\<close>

definition lift :: "error + 'r \<Rightarrow> ('r, 's) prog" where
  "lift r = (\<lambda>s. (r, s))"

text \<open>A framework call: the call is logged, then runs on the framework's state.\<close>

definition invoke :: "('a, 'm) event \<Rightarrow> ('w \<Rightarrow> (error + 'r) \<times> 'w)
    \<Rightarrow> ('r, ('a, 'm, 'w) state) prog" where
  "invoke ev prim = (\<lambda>s. case prim (world s) of
     (r, w') \<Rightarrow> (r, \<lparr>world = w', calls = calls s @ [ev]\<rparr>))"

section \<open>Python operations the methods use\<close>

text \<open>\<open>xs[0]\<close> on a tuple or list: IndexError when it is empty.\<close>

definition item0 :: "'x list \<Rightarrow> ('x, 's) prog" where
  "item0 xs = (case xs of [] \<Rightarrow> raise IndexError | x # _ \<Rightarrow> ret x)"

text \<open>Reading an attribute that may not exist: AttributeError when it does not.\<close>

definition getattr :: "'x option \<Rightarrow> ('x, 's) prog" where
  "getattr a = (case a of None \<Rightarrow> raise AttributeError | Some x \<Rightarrow> ret x)"

text \<open>
  In a call, \<open>*v\<close> passes the elements of an iterable as positional arguments;
  \<open>**v\<close> needs a mapping and raises TypeError on anything else, a tuple included.
  Opaque objects are taken to be neither.
\<close>

fun star :: "'a pyval \<Rightarrow> error + 'a args" where
  "star (PTuple xs) = Inr xs"
| "star (PList xs) = Inr xs"
| "star (PDict kvs) = Inr (map (\<lambda>kv. PStr (fst kv)) kvs)"
| "star (PStr s) = Inr (map (\<lambda>c. PStr [c]) s)"
| "star PNone = Inl TypeError"
| "star (PInt i) = Inl TypeError"
| "star (PObj x) = Inl TypeError"

fun dstar :: "'a pyval \<Rightarrow> error + 'a kwargs" where
  "dstar (PDict kvs) = Inr kvs"
| "dstar v = Inl TypeError"

text \<open>\<open>list(map(f, xs))\<close> for an \<open>f\<close> that may raise: the first exception ends it.\<close>

fun map_raising :: "('x \<Rightarrow> error + 'y) \<Rightarrow> 'x list \<Rightarrow> error + 'y list" where
  "map_raising f [] = Inr []"
| "map_raising f (x # xs) =
     (case f x of Inl e \<Rightarrow> Inl e
      | Inr y \<Rightarrow> (case map_raising f xs of Inl e \<Rightarrow> Inl e | Inr ys \<Rightarrow> Inr (y # ys)))"

section \<open>MMDataParallel\<close>

subsection \<open>\<open>__init__\<close>\<close>

text \<open>
  \<open>device_ids\<close> and \<open>output_device\<close> are \<open>None\<close> (the default) or what the caller
  passed. \<open>super(DataParallel, self).__init__()\<close> sets none of the five attributes and is
  left out.
\<close>

definition init :: "('a, 'm, 'w) framework \<Rightarrow> 'm \<Rightarrow> 'a pyval list option \<Rightarrow> 'a pyval option \<Rightarrow> int
    \<Rightarrow> ('m MMDataParallel, ('a, 'm, 'w) state) prog" where
  "init fw module0 device_ids0 output_device0 dim0 =
     (if \<not> cuda_is_available fw then
        ret \<lparr>module = module0, device_ids = [], dim = dim0,
             output_device = None, src_device_obj = None\<rparr>
      else
        let device_ids1 = (case device_ids0 of
               None \<Rightarrow> map (\<lambda>i. PInt (int i)) [0 ..< cuda_device_count fw]
             | Some ds \<Rightarrow> ds)
        in
        andthen (case output_device0 of None \<Rightarrow> item0 device_ids1 | Some od \<Rightarrow> ret od)
          (\<lambda>output_device1.
        andthen (lift (map_raising (get_device_index fw) device_ids1)) (\<lambda>ids.
        andthen (lift (get_device_index fw output_device1)) (\<lambda>od.
        andthen (item0 ids) (\<lambda>d0.
        andthen (invoke (Check_balance ids) (check_balance fw ids)) (\<lambda>_.
        let self = \<lparr>module = module0, device_ids = ids, dim = dim0,
                    output_device = Some od, src_device_obj = Some (CUDA d0)\<rparr>
        in
        if length ids = 1 then
          andthen (item0 device_ids1) (\<lambda>d.
          andthen (invoke (Module_cuda module0 d) (module_cuda fw module0 d)) (\<lambda>_.
          ret self))
        else ret self))))))"

subsection \<open>\<open>scatter\<close>\<close>

definition scatter :: "('a, 'm, 'w) framework \<Rightarrow> 'm MMDataParallel \<Rightarrow> 'a args \<Rightarrow> 'a kwargs
    \<Rightarrow> 'a pyval \<Rightarrow> ('a args list \<times> 'a kwargs list, ('a, 'm, 'w) state) prog" where
  "scatter fw self inputs kwargs target =
     invoke (Scatter_kwargs inputs kwargs target (dim self))
            (scatter_kwargs fw inputs kwargs target (dim self))"

subsection \<open>The parameter/buffer device check\<close>

text \<open>
  The loop \<open>for t in chain(self.module.parameters(), self.module.buffers())\<close> that
  \<open>forward\<close>, \<open>train_step\<close> and \<open>val_step\<close> each contain, over the devices of the
  tensors. \<open>self.src_device_obj\<close> is read in the loop body only.
\<close>

fun check_loop :: "device option \<Rightarrow> device list \<Rightarrow> (unit, 's) prog" where
  "check_loop src [] = ret ()"
| "check_loop src (t # ts) =
     (case src of
        None \<Rightarrow> raise AttributeError
      | Some d \<Rightarrow> if t \<noteq> d then raise (RuntimeError d t) else check_loop src ts)"

text \<open>\<open>chain(self.module.parameters(), self.module.buffers())\<close>, as devices.\<close>

definition tensor_devices :: "('a, 'm, 'w) framework \<Rightarrow> 'm MMDataParallel \<Rightarrow> 'w \<Rightarrow> device list" where
  "tensor_devices fw self w = parameters fw (module self) w @ buffers fw (module self) w"

definition check_devices :: "('a, 'm, 'w) framework \<Rightarrow> 'm MMDataParallel
    \<Rightarrow> (unit, ('a, 'm, 'w) state) prog" where
  "check_devices fw self = (\<lambda>s.
     check_loop (src_device_obj self) (tensor_devices fw self (world s)) s)"

subsection \<open>\<open>forward\<close>\<close>

definition forward :: "('a, 'm, 'w) framework \<Rightarrow> 'm MMDataParallel \<Rightarrow> 'a args \<Rightarrow> 'a kwargs
    \<Rightarrow> ('a pyval, ('a, 'm, 'w) state) prog" where
  "forward fw self inputs kwargs =
     (if device_ids self = [] then
        andthen (scatter fw self inputs kwargs (PList [PInt (- 1)])) (\<lambda>(inputs1, kwargs1).
        andthen (item0 inputs1) (\<lambda>a.
        andthen (item0 kwargs1) (\<lambda>k.
        invoke (Module_call (module self) a k) (module_forward fw (module self) a k))))
      else
        andthen (check_devices fw self) (\<lambda>_.
        andthen (scatter fw self inputs kwargs (PList (map PInt (device_ids self))))
          (\<lambda>(inputs1, kwargs1).
        if length (device_ids self) = 1 then
          andthen (item0 inputs1) (\<lambda>a.
          andthen (item0 kwargs1) (\<lambda>k.
          invoke (Module_call (module self) a k) (module_forward fw (module self) a k)))
        else
          let devs = take (length inputs1) (device_ids self) in
          andthen (invoke (Replicate (module self) devs)
                     (replicate_module fw self (module self) devs)) (\<lambda>replicas.
          andthen (invoke (Parallel_apply replicas inputs1 kwargs1)
                     (parallel_apply fw self replicas inputs1 kwargs1)) (\<lambda>outputs.
          andthen (getattr (output_device self)) (\<lambda>od.
          invoke (Gather outputs od) (gather fw self outputs od)))))))"

subsection \<open>\<open>train_step\<close> and \<open>val_step\<close>\<close>

text \<open>
  Without devices the two methods pass the integer \<open>-1\<close> to \<open>scatter\<close> and call the
  module's method with \<open>*inputs, **kwargs\<close>, where both names hold the tuples that
  \<open>scatter\<close> returned.
\<close>

definition train_step :: "('a, 'm, 'w) framework \<Rightarrow> 'm MMDataParallel \<Rightarrow> 'a args \<Rightarrow> 'a kwargs
    \<Rightarrow> ('a pyval, ('a, 'm, 'w) state) prog" where
  "train_step fw self inputs kwargs =
     (if device_ids self = [] then
        andthen (scatter fw self inputs kwargs (PInt (- 1))) (\<lambda>(inputs1, kwargs1).
        andthen (getattr (module_train_step fw (module self))) (\<lambda>f.
        andthen (lift (star (PTuple (map PTuple inputs1)))) (\<lambda>a.
        andthen (lift (dstar (PTuple (map PDict kwargs1)))) (\<lambda>k.
        invoke (Module_train_step (module self) a k) (f a k)))))
      else if length (device_ids self) \<noteq> 1 then raise AssertionError
      else
        andthen (check_devices fw self) (\<lambda>_.
        andthen (scatter fw self inputs kwargs (PList (map PInt (device_ids self))))
          (\<lambda>(inputs1, kwargs1).
        andthen (getattr (module_train_step fw (module self))) (\<lambda>f.
        andthen (item0 inputs1) (\<lambda>a.
        andthen (item0 kwargs1) (\<lambda>k.
        invoke (Module_train_step (module self) a k) (f a k)))))))"

definition val_step :: "('a, 'm, 'w) framework \<Rightarrow> 'm MMDataParallel \<Rightarrow> 'a args \<Rightarrow> 'a kwargs
    \<Rightarrow> ('a pyval, ('a, 'm, 'w) state) prog" where
  "val_step fw self inputs kwargs =
     (if device_ids self = [] then
        andthen (scatter fw self inputs kwargs (PInt (- 1))) (\<lambda>(inputs1, kwargs1).
        andthen (getattr (module_val_step fw (module self))) (\<lambda>f.
        andthen (lift (star (PTuple (map PTuple inputs1)))) (\<lambda>a.
        andthen (lift (dstar (PTuple (map PDict kwargs1)))) (\<lambda>k.
        invoke (Module_val_step (module self) a k) (f a k)))))
      else if length (device_ids self) \<noteq> 1 then raise AssertionError
      else
        andthen (check_devices fw self) (\<lambda>_.
        andthen (scatter fw self inputs kwargs (PList (map PInt (device_ids self))))
          (\<lambda>(inputs1, kwargs1).
        andthen (getattr (module_val_step fw (module self))) (\<lambda>f.
        andthen (item0 inputs1) (\<lambda>a.
        andthen (item0 kwargs1) (\<lambda>k.
        invoke (Module_val_step (module self) a k) (f a k)))))))"

section \<open>Properties of a state and of a run\<close>

text \<open>Every parameter and buffer of the wrapped module is on \<open>self.src_device_obj\<close>.\<close>

definition devices_ok :: "('a, 'm, 'w) framework \<Rightarrow> 'm MMDataParallel \<Rightarrow> 'w \<Rightarrow> bool" where
  "devices_ok fw self w = list_all (\<lambda>t. src_device_obj self = Some t) (tensor_devices fw self w)"

text \<open>
  The general pipeline of the claims' words, for comparison with the single-device return
  of \<open>forward\<close>: scatter across \<open>self.device_ids\<close>, replicate, apply the replicas in
  parallel, gather on \<open>self.output_device\<close>.
\<close>

definition scatter_replicate_apply_gather :: "('a, 'm, 'w) framework \<Rightarrow> 'm MMDataParallel
    \<Rightarrow> 'a args \<Rightarrow> 'a kwargs \<Rightarrow> ('a pyval, ('a, 'm, 'w) state) prog" where
  "scatter_replicate_apply_gather fw self inputs kwargs =
     andthen (scatter fw self inputs kwargs (PList (map PInt (device_ids self))))
       (\<lambda>(inputs1, kwargs1).
     let devs = take (length inputs1) (device_ids self) in
     andthen (invoke (Replicate (module self) devs)
                (replicate_module fw self (module self) devs)) (\<lambda>replicas.
     andthen (invoke (Parallel_apply replicas inputs1 kwargs1)
                (parallel_apply fw self replicas inputs1 kwargs1)) (\<lambda>outputs.
     andthen (getattr (output_device self)) (\<lambda>od.
     invoke (Gather outputs od) (gather fw self outputs od)))))"

section \<open>A small framework for evaluating the methods\<close>

text \<open>
  A framework with two CUDA devices in which everything can be computed. Its state is the
  list of devices of the wrapped module's parameters; the module has no buffers and returns
  the tuple of its positional arguments. \<open>scatter_kwargs\<close> gives the \<open>j\<close>-th target
  device the \<open>j\<close>-th positional input (so there are no more chunks than inputs) and takes
  a bare integer as one target; \<open>gather\<close> returns a single output as it is and several
  outputs as a list.
\<close>

definition demo_scatter :: "nat args \<Rightarrow> nat kwargs \<Rightarrow> nat pyval \<Rightarrow> int \<Rightarrow> device list
    \<Rightarrow> (error + (nat args list \<times> nat kwargs list)) \<times> device list" where
  "demo_scatter inputs kwargs target d w =
     (case target of
        PList ds \<Rightarrow> (Inr (map (\<lambda>p. [snd p]) (zip ds inputs),
                           map (\<lambda>p. kwargs) (zip ds inputs)), w)
      | PInt i \<Rightarrow> (Inr ([inputs], [kwargs]), w)
      | _ \<Rightarrow> (Inl TypeError, w))"

definition demo_fw :: "(nat, string, device list) framework" where
  "demo_fw = \<lparr>
     cuda_is_available = True,
     cuda_device_count = 2,
     get_device_index = (\<lambda>v. case v of PInt i \<Rightarrow> Inr i | _ \<Rightarrow> Inl TypeError),
     check_balance = (\<lambda>ids w. (Inr (), w)),
     module_cuda = (\<lambda>m v w. case v of PInt i \<Rightarrow> (Inr (), map (\<lambda>t. CUDA i) w)
                                    | _ \<Rightarrow> (Inl TypeError, w)),
     parameters = (\<lambda>m w. w),
     buffers = (\<lambda>m w. []),
     scatter_kwargs = demo_scatter,
     replicate_module = (\<lambda>self m ids w. (Inr (map (\<lambda>i. m) ids), w)),
     parallel_apply = (\<lambda>self ms chunks ks w. (Inr (map PTuple chunks), w)),
     gather = (\<lambda>self outs od w. (Inr (case outs of [y] \<Rightarrow> y | _ \<Rightarrow> PList outs), w)),
     module_forward = (\<lambda>m a k w. (Inr (PTuple a), w)),
     module_train_step = (\<lambda>m. Some (\<lambda>a k w. (Inr (PTuple a), w))),
     module_val_step = (\<lambda>m. Some (\<lambda>a k w. (Inr (PTuple a), w)))\<rparr>"

text \<open>The same framework with a \<open>gather\<close> that always returns the list of outputs.\<close>

definition demo_fw_list_gather :: "(nat, string, device list) framework" where
  "demo_fw_list_gather = demo_fw\<lparr>gather := (\<lambda>self outs od w. (Inr (PList outs), w))\<rparr>"

text \<open>Instances without a device, with one device and with two.\<close>

definition demo_cpu :: "string MMDataParallel" where
  "demo_cpu = \<lparr>module = ''net'', device_ids = [], dim = 0,
                output_device = None, src_device_obj = None\<rparr>"

definition demo_one :: "string MMDataParallel" where
  "demo_one = \<lparr>module = ''net'', device_ids = [0], dim = 0,
                output_device = Some 0, src_device_obj = Some (CUDA 0)\<rparr>"

definition demo_two :: "string MMDataParallel" where
  "demo_two = \<lparr>module = ''net'', device_ids = [0, 1], dim = 0,
                output_device = Some 0, src_device_obj = Some (CUDA 0)\<rparr>"

text \<open>A state in which the module's parameters are on the given devices; no call yet.\<close>

definition demo_state :: "device list \<Rightarrow> (nat, string, device list) state" where
  "demo_state ds = \<lparr>world = ds, calls = []\<rparr>"

section \<open>Helper lemmas\<close>

lemmas prog_defs =
  andthen_def invoke_def ret_def raise_def lift_def item0_def getattr_def scatter_def

lemma check_loop_pass:
  "list_all (\<lambda>t. src = Some t) ts \<Longrightarrow> check_loop src ts s = (Inr (), s)"
  by (induction ts) (auto simp: ret_def raise_def split: option.splits)

lemma check_devices_pass:
  "devices_ok fw self (world s) \<Longrightarrow> check_devices fw self s = (Inr (), s)"
  by (simp add: devices_ok_def check_devices_def check_loop_pass)

lemma check_loop_fail:
  "\<exists>t\<in>set ts. t \<noteq> d \<Longrightarrow>
   \<exists>t\<in>set ts. t \<noteq> d \<and> check_loop (Some d) ts s = (Inl (RuntimeError d t), s)"
  by (induction ts) (auto simp: ret_def raise_def)

lemma check_devices_fail:
  "src_device_obj self = Some d \<Longrightarrow>
   \<exists>t\<in>set (tensor_devices fw self (world s)). t \<noteq> d \<Longrightarrow>
   \<exists>t\<in>set (tensor_devices fw self (world s)).
      t \<noteq> d \<and> check_devices fw self s = (Inl (RuntimeError d t), s)"
  using check_loop_fail[of "tensor_devices fw self (world s)" d s]
  by (simp add: check_devices_def)

lemma all_on_device_ok:
  "src_device_obj self = Some d \<Longrightarrow> \<forall>t\<in>set (tensor_devices fw self w). t = d \<Longrightarrow>
   devices_ok fw self w"
  by (auto simp: devices_ok_def list_all_iff)

lemma map_raising_length: "map_raising f xs = Inr ys \<Longrightarrow> length ys = length xs"
  by (induction xs arbitrary: ys) (auto split: sum.splits)

lemma map_raising_hd:
  "map_raising f (x # xs) = Inr ys \<Longrightarrow> f x = Inr (hd ys)"
  by (auto split: sum.splits)

text \<open>What a successful \<open>__init__\<close> with CUDA and a given list of devices leaves behind.\<close>

lemma init_given_ids:
  assumes av: "cuda_is_available fw"
    and run: "init fw m (Some raw) od d s = (Inr self, s1)"
  shows "module self = m \<and> dim self = d
      \<and> map_raising (get_device_index fw) raw = Inr (device_ids self)
      \<and> device_ids self \<noteq> []
      \<and> (od = None \<longrightarrow> output_device self = Some (hd (device_ids self)))
      \<and> (\<forall>v. od = Some v \<longrightarrow> get_device_index fw v = Inr (the (output_device self)))
      \<and> output_device self \<noteq> None
      \<and> src_device_obj self = Some (CUDA (hd (device_ids self)))
      \<and> (length (device_ids self) = 1 \<longrightarrow>
           calls s1 = calls s @ [Check_balance (device_ids self), Module_cuda m (hd raw)])
      \<and> (length (device_ids self) \<noteq> 1 \<longrightarrow>
           calls s1 = calls s @ [Check_balance (device_ids self)])"
proof (intro conjI impI)
  from run av obtain ids0 where ids0: "map_raising (get_device_index fw) raw = Inr ids0"
    by (auto simp: init_def prog_defs Let_def split: option.splits list.splits sum.splits prod.splits if_splits)
  from run av ids0 have self_ids: "device_ids self = ids0" and m: "module self = m" and dd: "dim self = d"
    and ne: "ids0 \<noteq> []" and src: "src_device_obj self = Some (CUDA (hd ids0))"
    and od_set: "output_device self \<noteq> None"
    by (auto simp: init_def prog_defs Let_def split: option.splits list.splits sum.splits prod.splits if_splits)
  show "module self = m" by (rule m)
  show "dim self = d" by (rule dd)
  show "map_raising (get_device_index fw) raw = Inr (device_ids self)" using ids0 self_ids by simp
  show "device_ids self \<noteq> []" using ne self_ids by simp
  show "output_device self \<noteq> None" by (rule od_set)
  show "src_device_obj self = Some (CUDA (hd (device_ids self)))" using src self_ids by simp
  from map_raising_length[OF ids0] ne obtain r rs where raw: "raw = r # rs" by (cases raw) auto
  have hd0: "get_device_index fw r = Inr (hd ids0)" using map_raising_hd ids0 raw by metis
  show "output_device self = Some (hd (device_ids self))" if "od = None"
    using run av ids0 that raw hd0 self_ids
    by (auto simp: init_def prog_defs Let_def split: option.splits list.splits sum.splits prod.splits if_splits)
  show "\<forall>v. od = Some v \<longrightarrow> get_device_index fw v = Inr (the (output_device self))"
    using run av ids0
    by (auto simp: init_def prog_defs Let_def split: option.splits list.splits sum.splits prod.splits if_splits)
  show "calls s1 = calls s @ [Check_balance (device_ids self), Module_cuda m (hd raw)]"
    if "length (device_ids self) = 1"
    using run av ids0 that raw self_ids
    by (auto simp: init_def prog_defs Let_def split: option.splits list.splits sum.splits prod.splits if_splits)
  show "calls s1 = calls s @ [Check_balance (device_ids self)]"
    if "length (device_ids self) \<noteq> 1"
    using run av ids0 that raw self_ids
    by (auto simp: init_def prog_defs Let_def split: option.splits list.splits sum.splits prod.splits if_splits)
qed

lemma init_default_ids:
  "cuda_is_available fw \<Longrightarrow>
   init fw m None od d s =
     init fw m (Some (map (\<lambda>i. PInt (int i)) [0 ..< cuda_device_count fw])) od d s"
  by (simp add: init_def)

text \<open>Two constructor calls in the small framework.\<close>

lemma demo_init_none:
  "init demo_fw ''net'' None None 0 (demo_state [CPU]) =
     (Inr demo_two, \<lparr>world = [CPU], calls = [Check_balance [0, 1]]\<rparr>)"
  by (simp add: init_def demo_fw_def demo_two_def demo_state_def prog_defs Let_def upt_rec)

lemma demo_init_one:
  "init demo_fw ''net'' (Some [PInt 1]) (Some (PInt 1)) 0 (demo_state [CPU]) =
     (Inr \<lparr>module = ''net'', device_ids = [1], dim = 0, output_device = Some 1,
           src_device_obj = Some (CUDA 1)\<rparr>,
      \<lparr>world = [CUDA 1], calls = [Check_balance [1], Module_cuda ''net'' (PInt 1)]\<rparr>)"
  by (simp add: init_def demo_fw_def demo_state_def prog_defs Let_def)

section \<open>The claims\<close>

subsection \<open>C1: \<open>forward\<close> with more than one device\<close>

text \<open>
  C1. A call of \<open>forward\<close> on an instance with more than one device, once the
  parameter/buffer device check has passed, is the pipeline scatter, replicate,
  parallel_apply, gather (first part, exceptions included). When the framework calls
  return, the inputs and kwargs are scattered across \<open>self.device_ids\<close>, the wrapped
  module is replicated, the replicas are applied in parallel to the scattered inputs, the
  outputs are gathered on \<open>self.output_device\<close>, and what \<open>gather\<close> returns is
  returned; the log holds exactly these four calls, in this order.
\<close>

theorem forward_multi_device:
  assumes "1 < length (device_ids self)"
    and "devices_ok fw self (world s)"
  shows "forward fw self inputs kwargs s = scatter_replicate_apply_gather fw self inputs kwargs s
       \<and> (scatter_kwargs fw inputs kwargs (PList (map PInt (device_ids self))) (dim self) (world s)
             = (Inr (inputs1, kwargs1), w1)
          \<and> replicate_module fw self (module self) (take (length inputs1) (device_ids self)) w1
             = (Inr replicas, w2)
          \<and> parallel_apply fw self replicas inputs1 kwargs1 w2 = (Inr outputs, w3)
          \<and> output_device self = Some od
          \<and> gather fw self outputs od w3 = (r, w4)
          \<longrightarrow> forward fw self inputs kwargs s =
                (r, \<lparr>world = w4,
                     calls = calls s @
                       [Scatter_kwargs inputs kwargs (PList (map PInt (device_ids self))) (dim self),
                        Replicate (module self) (take (length inputs1) (device_ids self)),
                        Parallel_apply replicas inputs1 kwargs1,
                        Gather outputs od]\<rparr>))"
proof -
  from assms(1) have ne: "device_ids self \<noteq> []" "length (device_ids self) \<noteq> 1" by auto
  have run: "forward fw self inputs kwargs s =
      scatter_replicate_apply_gather fw self inputs kwargs s"
    using check_devices_pass[OF assms(2)] ne
    by (auto simp add: forward_def scatter_replicate_apply_gather_def andthen_def Let_def
        split: prod.splits sum.splits)
  have path: "scatter_replicate_apply_gather fw self inputs kwargs s =
                (r, \<lparr>world = w4,
                     calls = calls s @
                       [Scatter_kwargs inputs kwargs (PList (map PInt (device_ids self))) (dim self),
                        Replicate (module self) (take (length inputs1) (device_ids self)),
                        Parallel_apply replicas inputs1 kwargs1,
                        Gather outputs od]\<rparr>)"
    if "scatter_kwargs fw inputs kwargs (PList (map PInt (device_ids self))) (dim self) (world s)
             = (Inr (inputs1, kwargs1), w1)"
      "replicate_module fw self (module self) (take (length inputs1) (device_ids self)) w1
             = (Inr replicas, w2)"
      "parallel_apply fw self replicas inputs1 kwargs1 w2 = (Inr outputs, w3)"
      "output_device self = Some od"
      "gather fw self outputs od w3 = (r, w4)"
    using that by (simp add: scatter_replicate_apply_gather_def prog_defs Let_def)
  show ?thesis using run path by simp
qed

text \<open>C1, witness: two devices, two inputs, the parameter on \<open>cuda:0\<close>.\<close>

theorem forward_multi_device_witness:
  "forward demo_fw demo_two [PInt 7, PInt 8] [] (demo_state [CUDA 0]) =
     scatter_replicate_apply_gather demo_fw demo_two [PInt 7, PInt 8] [] (demo_state [CUDA 0])
   \<and> forward demo_fw demo_two [PInt 7, PInt 8] [] (demo_state [CUDA 0]) =
     (Inr (PList [PTuple [PInt 7], PTuple [PInt 8]]),
      \<lparr>world = [CUDA 0],
       calls = [Scatter_kwargs [PInt 7, PInt 8] [] (PList [PInt 0, PInt 1]) 0,
                Replicate ''net'' [0, 1],
                Parallel_apply [''net'', ''net''] [[PInt 7], [PInt 8]] [[], []],
                Gather [PTuple [PInt 7], PTuple [PInt 8]] 0]\<rparr>)"
proof -
  have h1: "1 < length (device_ids demo_two)" by (simp add: demo_two_def)
  have h2: "devices_ok demo_fw demo_two (world (demo_state [CUDA 0]))"
    by (simp add: devices_ok_def tensor_devices_def demo_fw_def demo_two_def demo_state_def)
  have h3: "scatter_kwargs demo_fw [PInt 7, PInt 8] [] (PList (map PInt (device_ids demo_two)))
              (dim demo_two) (world (demo_state [CUDA 0]))
            = (Inr ([[PInt 7], [PInt 8]], [[], []]), [CUDA 0])
          \<and> replicate_module demo_fw demo_two (module demo_two)
              (take (length [[PInt 7 :: nat pyval], [PInt 8]]) (device_ids demo_two)) [CUDA 0]
            = (Inr [''net'', ''net''], [CUDA 0])
          \<and> parallel_apply demo_fw demo_two [''net'', ''net''] [[PInt 7], [PInt 8]] [[], []] [CUDA 0]
            = (Inr [PTuple [PInt 7], PTuple [PInt 8]], [CUDA 0])
          \<and> output_device demo_two = Some 0
          \<and> gather demo_fw demo_two [PTuple [PInt 7], PTuple [PInt 8]] 0 [CUDA 0]
            = (Inr (PList [PTuple [PInt 7], PTuple [PInt 8]]), [CUDA 0])"
    by (simp add: demo_fw_def demo_two_def demo_state_def demo_scatter_def)
  note run = forward_multi_device[OF h1 h2, of "[PInt 7, PInt 8]" "[]"
        "[[PInt 7], [PInt 8]]" "[[], []]" "[CUDA 0]" "[''net'', ''net'']" "[CUDA 0]"
        "[PTuple [PInt 7], PTuple [PInt 8]]" "[CUDA 0]" 0
        "Inr (PList [PTuple [PInt 7], PTuple [PInt 8]])" "[CUDA 0]"]
  from run have a: "forward demo_fw demo_two [PInt 7, PInt 8] [] (demo_state [CUDA 0]) =
     scatter_replicate_apply_gather demo_fw demo_two [PInt 7, PInt 8] [] (demo_state [CUDA 0])"
    by (rule conjunct1)
  from conjunct2[OF run, THEN mp, OF h3]
  have b: "forward demo_fw demo_two [PInt 7, PInt 8] [] (demo_state [CUDA 0]) =
     (Inr (PList [PTuple [PInt 7], PTuple [PInt 8]]),
      \<lparr>world = [CUDA 0],
       calls = [Scatter_kwargs [PInt 7, PInt 8] [] (PList [PInt 0, PInt 1]) 0,
                Replicate ''net'' [0, 1],
                Parallel_apply [''net'', ''net''] [[PInt 7], [PInt 8]] [[], []],
                Gather [PTuple [PInt 7], PTuple [PInt 8]] 0]\<rparr>)"
    by (simp add: demo_two_def demo_state_def)
  from a b show ?thesis by (rule conjI)
qed

subsection \<open>C2: \<open>train_step\<close> and \<open>val_step\<close> with one device\<close>

text \<open>
  C2, as stated, fails: on an instance with exactly one device whose module has a parameter
  on the CPU, \<open>train_step\<close> and \<open>val_step\<close> raise the RuntimeError of the device
  check; nothing is scattered and the module's method is not called.
\<close>

theorem step_one_device_counterexample:
  "train_step demo_fw demo_one [PInt 7] [] (demo_state [CPU]) =
     (Inl (RuntimeError (CUDA 0) CPU), \<lparr>world = [CPU], calls = []\<rparr>)
   \<and> val_step demo_fw demo_one [PInt 7] [] (demo_state [CPU]) =
     (Inl (RuntimeError (CUDA 0) CPU), \<lparr>world = [CPU], calls = []\<rparr>)"
  by (simp add: train_step_def val_step_def demo_fw_def demo_one_def demo_state_def
      check_devices_def tensor_devices_def prog_defs)

text \<open>
  C2, amended. On an instance with exactly one device, once the parameter/buffer device
  check has passed, \<open>train_step\<close> (\<open>val_step\<close>) scatters inputs and kwargs to that
  device and returns the wrapped module's \<open>train_step\<close> (\<open>val_step\<close>) applied to the
  first scattered chunk, the method called with \<open>*inputs[0], **kwargs[0]\<close>: these are the
  two calls of the log.
\<close>

theorem step_one_device:
  assumes "length (device_ids self) = 1"
    and "devices_ok fw self (world s)"
    and "scatter_kwargs fw inputs kwargs (PList (map PInt (device_ids self))) (dim self) (world s)
           = (Inr (a # as, k # ks), w1)"
  shows "(module_train_step fw (module self) = Some f \<longrightarrow>
            train_step fw self inputs kwargs s =
              (fst (f a k w1),
               \<lparr>world = snd (f a k w1),
                calls = calls s @
                  [Scatter_kwargs inputs kwargs (PList (map PInt (device_ids self))) (dim self),
                   Module_train_step (module self) a k]\<rparr>))
       \<and> (module_val_step fw (module self) = Some g \<longrightarrow>
            val_step fw self inputs kwargs s =
              (fst (g a k w1),
               \<lparr>world = snd (g a k w1),
                calls = calls s @
                  [Scatter_kwargs inputs kwargs (PList (map PInt (device_ids self))) (dim self),
                   Module_val_step (module self) a k]\<rparr>))"
proof -
  from assms(1) have ne: "device_ids self \<noteq> []" by auto
  show ?thesis
    using assms(1,3) check_devices_pass[OF assms(2)] ne
    by (auto simp add: train_step_def val_step_def prog_defs split: prod.splits)
qed

text \<open>C2, witness: one device, the parameter on \<open>cuda:0\<close>.\<close>

theorem step_one_device_witness:
  "train_step demo_fw demo_one [PInt 7] [] (demo_state [CUDA 0]) =
     (Inr (PTuple [PInt 7]),
      \<lparr>world = [CUDA 0],
       calls = [Scatter_kwargs [PInt 7] [] (PList [PInt 0]) 0,
                Module_train_step ''net'' [PInt 7] []]\<rparr>)
   \<and> val_step demo_fw demo_one [PInt 7] [] (demo_state [CUDA 0]) =
     (Inr (PTuple [PInt 7]),
      \<lparr>world = [CUDA 0],
       calls = [Scatter_kwargs [PInt 7] [] (PList [PInt 0]) 0,
                Module_val_step ''net'' [PInt 7] []]\<rparr>)"
  using step_one_device[of demo_one demo_fw "demo_state [CUDA 0]" "[PInt 7]" "[]"
      "[PInt 7]" "[]" "[]" "[]" "[CUDA 0]"
      "\<lambda>a k w. (Inr (PTuple a), w)" "\<lambda>a k w. (Inr (PTuple a), w)"]
  by (simp add: demo_fw_def demo_one_def demo_state_def demo_scatter_def devices_ok_def
      tensor_devices_def)

subsection \<open>C3: \<open>train_step\<close> and \<open>val_step\<close> with several devices\<close>

text \<open>
  C3. With more than one device, \<open>train_step\<close> and \<open>val_step\<close> raise AssertionError
  before any scatter and before any call into the wrapped module: the state (the
  framework's state, which holds the module's tensors, and the log of calls) is returned as
  it was.
\<close>

theorem step_multi_device_asserts:
  assumes "1 < length (device_ids self)"
  shows "train_step fw self inputs kwargs s = (Inl AssertionError, s)
       \<and> val_step fw self inputs kwargs s = (Inl AssertionError, s)"
proof -
  from assms have ne: "device_ids self \<noteq> []" "length (device_ids self) \<noteq> 1" by auto
  show ?thesis using ne by (simp add: train_step_def val_step_def raise_def)
qed

text \<open>C3, witness: two devices.\<close>

theorem step_multi_device_asserts_witness:
  "train_step demo_fw demo_two [PInt 7] [] (demo_state [CUDA 0]) =
     (Inl AssertionError, demo_state [CUDA 0])
   \<and> val_step demo_fw demo_two [PInt 7] [] (demo_state [CUDA 0]) =
     (Inl AssertionError, demo_state [CUDA 0])"
  using step_multi_device_asserts[of demo_two demo_fw "[PInt 7]" "[]" "demo_state [CUDA 0]"]
  by (simp add: demo_two_def)

subsection \<open>C4: \<open>forward\<close> without devices\<close>

text \<open>
  C4. On an instance without devices (\<open>device_ids = []\<close>), \<open>forward\<close> scatters inputs
  and kwargs with the target list \<open>[-1]\<close> and returns
  \<open>self.module\<close> called with \<open>*inputs[0], **kwargs[0]\<close>, the first scattered chunk;
  the device check is not run.
\<close>

theorem forward_cpu:
  assumes "device_ids self = []"
    and "scatter_kwargs fw inputs kwargs (PList [PInt (- 1)]) (dim self) (world s)
           = (Inr (a # as, k # ks), w1)"
  shows "forward fw self inputs kwargs s =
           (fst (module_forward fw (module self) a k w1),
            \<lparr>world = snd (module_forward fw (module self) a k w1),
             calls = calls s @
               [Scatter_kwargs inputs kwargs (PList [PInt (- 1)]) (dim self),
                Module_call (module self) a k]\<rparr>)"
  using assms by (simp add: forward_def prog_defs split: prod.splits)

text \<open>C4, witness: the instance without devices, the parameter on the CPU.\<close>

theorem forward_cpu_witness:
  "forward demo_fw demo_cpu [PInt 7] [] (demo_state [CPU]) =
     (Inr (PTuple [PInt 7]),
      \<lparr>world = [CPU],
       calls = [Scatter_kwargs [PInt 7] [] (PList [PInt (- 1)]) 0,
                Module_call ''net'' [PInt 7] []]\<rparr>)"
  using forward_cpu[of demo_cpu demo_fw "[PInt 7]" "[]" "demo_state [CPU]" "[PInt 7]" "[]" "[]" "[]" "[CPU]"]
  by (simp add: demo_fw_def demo_cpu_def demo_state_def demo_scatter_def)

subsection \<open>C5: \<open>train_step\<close> and \<open>val_step\<close> without devices\<close>

text \<open>
  Without devices, \<open>train_step\<close> and \<open>val_step\<close> pass the integer \<open>-1\<close> to
  \<open>scatter\<close>, not the list \<open>[-1]\<close> of \<open>forward\<close>, and they never reach the wrapped
  module's method: whatever the framework does, the call ends in an exception after the
  one call of \<open>scatter_kwargs\<close> (the keyword tuple is unpacked with \<open>**\<close>).
\<close>

lemma step_cpu_never_delegates:
  assumes "device_ids self = []"
  shows "(\<exists>e. train_step fw self inputs kwargs s =
            (Inl e, \<lparr>world = snd (scatter_kwargs fw inputs kwargs (PInt (- 1)) (dim self) (world s)),
                     calls = calls s @ [Scatter_kwargs inputs kwargs (PInt (- 1)) (dim self)]\<rparr>))
       \<and> (\<exists>e. val_step fw self inputs kwargs s =
            (Inl e, \<lparr>world = snd (scatter_kwargs fw inputs kwargs (PInt (- 1)) (dim self) (world s)),
                     calls = calls s @ [Scatter_kwargs inputs kwargs (PInt (- 1)) (dim self)]\<rparr>))"
  using assms
  by (auto simp add: train_step_def val_step_def prog_defs split: prod.splits sum.splits option.splits)

text \<open>
  C5, at a failing input. In the small framework, whose \<open>scatter_kwargs\<close> accepts the
  bare \<open>-1\<close>, \<open>train_step\<close> and \<open>val_step\<close> on the instance without devices raise
  TypeError after scattering to \<open>-1\<close>, while \<open>forward\<close> on the same input scatters to
  \<open>[-1]\<close> and returns the module's result on the first chunk. The claim says the two
  methods scatter in the same form as \<open>forward\<close> and pass the first chunk on.
\<close>

theorem step_cpu_failing_input:
  "train_step demo_fw demo_cpu [PInt 7] [] (demo_state [CPU]) =
     (Inl TypeError,
      \<lparr>world = [CPU], calls = [Scatter_kwargs [PInt 7] [] (PInt (- 1)) 0]\<rparr>)
   \<and> val_step demo_fw demo_cpu [PInt 7] [] (demo_state [CPU]) =
     (Inl TypeError,
      \<lparr>world = [CPU], calls = [Scatter_kwargs [PInt 7] [] (PInt (- 1)) 0]\<rparr>)
   \<and> forward demo_fw demo_cpu [PInt 7] [] (demo_state [CPU]) =
     (Inr (PTuple [PInt 7]),
      \<lparr>world = [CPU],
       calls = [Scatter_kwargs [PInt 7] [] (PList [PInt (- 1)]) 0,
                Module_call ''net'' [PInt 7] []]\<rparr>)"
  by (simp add: train_step_def val_step_def forward_def demo_fw_def demo_cpu_def demo_state_def
      demo_scatter_def prog_defs)

subsection \<open>C6: the parameter/buffer device check\<close>

text \<open>
  C6, as stated, fails for \<open>train_step\<close> and \<open>val_step\<close>: with two devices and a
  parameter on the CPU (not \<open>cuda:0\<close>) they raise AssertionError, not RuntimeError.
\<close>

theorem device_check_counterexample:
  "device_ids demo_two \<noteq> []
   \<and> src_device_obj demo_two = Some (CUDA 0)
   \<and> tensor_devices demo_fw demo_two (world (demo_state [CPU])) = [CPU]
   \<and> train_step demo_fw demo_two [PInt 7] [] (demo_state [CPU]) =
       (Inl AssertionError, demo_state [CPU])
   \<and> val_step demo_fw demo_two [PInt 7] [] (demo_state [CPU]) =
       (Inl AssertionError, demo_state [CPU])"
  by (simp add: train_step_def val_step_def demo_fw_def demo_two_def demo_state_def
      tensor_devices_def raise_def)
text \<open>
  C6, amended. On an instance with non-empty \<open>device_ids\<close> and \<open>src_device_obj = d\<close>:
  if a parameter or buffer of the wrapped module is on a device other than \<open>d\<close>, then
  \<open>forward\<close>, and with exactly one device also \<open>train_step\<close> and \<open>val_step\<close>, raise
  RuntimeError for such a tensor and return the state as it was (nothing is scattered);
  if all of them are on \<open>d\<close>, the same calls go on to scatter across
  \<open>self.device_ids\<close>, which is the first new entry of the log.
\<close>

theorem device_check_raises:
  assumes "device_ids self \<noteq> []"
    and "src_device_obj self = Some d"
  shows "((\<exists>t\<in>set (tensor_devices fw self (world s)). t \<noteq> d) \<longrightarrow>
            (\<exists>t. t \<noteq> d \<and> forward fw self inputs kwargs s = (Inl (RuntimeError d t), s))
          \<and> (length (device_ids self) = 1 \<longrightarrow>
               (\<exists>t. t \<noteq> d \<and> train_step fw self inputs kwargs s = (Inl (RuntimeError d t), s))
             \<and> (\<exists>t. t \<noteq> d \<and> val_step fw self inputs kwargs s = (Inl (RuntimeError d t), s))))
       \<and> ((\<forall>t\<in>set (tensor_devices fw self (world s)). t = d) \<longrightarrow>
            (\<exists>rest. calls (snd (forward fw self inputs kwargs s)) =
               calls s @ Scatter_kwargs inputs kwargs (PList (map PInt (device_ids self))) (dim self) # rest)
          \<and> (length (device_ids self) = 1 \<longrightarrow>
               (\<exists>rest. calls (snd (train_step fw self inputs kwargs s)) =
                  calls s @ Scatter_kwargs inputs kwargs (PList (map PInt (device_ids self))) (dim self) # rest)
             \<and> (\<exists>rest. calls (snd (val_step fw self inputs kwargs s)) =
                  calls s @ Scatter_kwargs inputs kwargs (PList (map PInt (device_ids self))) (dim self) # rest)))"
proof (intro conjI impI)
  assume bad: "\<exists>t\<in>set (tensor_devices fw self (world s)). t \<noteq> d"
  from check_devices_fail[OF assms(2) bad]
  obtain t where t: "t \<noteq> d" "check_devices fw self s = (Inl (RuntimeError d t), s)" by blast
  show "\<exists>t. t \<noteq> d \<and> forward fw self inputs kwargs s = (Inl (RuntimeError d t), s)"
    using t assms(1) by (auto simp: forward_def andthen_def)
  {
    assume one: "length (device_ids self) = 1"
    show "\<exists>t. t \<noteq> d \<and> train_step fw self inputs kwargs s = (Inl (RuntimeError d t), s)"
      using t assms(1) one by (auto simp: train_step_def andthen_def)
    show "\<exists>t. t \<noteq> d \<and> val_step fw self inputs kwargs s = (Inl (RuntimeError d t), s)"
      using t assms(1) one by (auto simp: val_step_def andthen_def)
  }
next
  assume good: "\<forall>t\<in>set (tensor_devices fw self (world s)). t = d"
  have pass: "check_devices fw self s = (Inr (), s)"
    by (rule check_devices_pass[OF all_on_device_ok[OF assms(2) good]])
  show "\<exists>rest. calls (snd (forward fw self inputs kwargs s)) =
               calls s @ Scatter_kwargs inputs kwargs (PList (map PInt (device_ids self))) (dim self) # rest"
    using pass assms(1)
    by (auto simp: forward_def prog_defs Let_def split: prod.splits sum.splits list.splits option.splits)
  {
    assume one: "length (device_ids self) = 1"
    show "\<exists>rest. calls (snd (train_step fw self inputs kwargs s)) =
               calls s @ Scatter_kwargs inputs kwargs (PList (map PInt (device_ids self))) (dim self) # rest"
      using pass assms(1) one
      by (auto simp: train_step_def prog_defs split: prod.splits sum.splits list.splits option.splits)
    show "\<exists>rest. calls (snd (val_step fw self inputs kwargs s)) =
               calls s @ Scatter_kwargs inputs kwargs (PList (map PInt (device_ids self))) (dim self) # rest"
      using pass assms(1) one
      by (auto simp: val_step_def prog_defs split: prod.splits sum.splits list.splits option.splits)
  }
qed

text \<open>C6, witness: one device, with the parameter on the CPU and with it on \<open>cuda:0\<close>.\<close>

theorem device_check_raises_witness:
  "(\<exists>t. t \<noteq> CUDA 0 \<and> forward demo_fw demo_one [PInt 7] [] (demo_state [CPU]) =
          (Inl (RuntimeError (CUDA 0) t), demo_state [CPU]))
   \<and> (\<exists>t. t \<noteq> CUDA 0 \<and> train_step demo_fw demo_one [PInt 7] [] (demo_state [CPU]) =
          (Inl (RuntimeError (CUDA 0) t), demo_state [CPU]))
   \<and> (\<exists>t. t \<noteq> CUDA 0 \<and> val_step demo_fw demo_one [PInt 7] [] (demo_state [CPU]) =
          (Inl (RuntimeError (CUDA 0) t), demo_state [CPU]))
   \<and> (\<exists>rest. calls (snd (forward demo_fw demo_one [PInt 7] [] (demo_state [CUDA 0]))) =
          Scatter_kwargs [PInt 7] [] (PList [PInt 0]) 0 # rest)
   \<and> (\<exists>rest. calls (snd (train_step demo_fw demo_one [PInt 7] [] (demo_state [CUDA 0]))) =
          Scatter_kwargs [PInt 7] [] (PList [PInt 0]) 0 # rest)
   \<and> (\<exists>rest. calls (snd (val_step demo_fw demo_one [PInt 7] [] (demo_state [CUDA 0]))) =
          Scatter_kwargs [PInt 7] [] (PList [PInt 0]) 0 # rest)"
proof -
  have h1: "device_ids demo_one \<noteq> []" by (simp add: demo_one_def)
  have h2: "src_device_obj demo_one = Some (CUDA 0)" by (simp add: demo_one_def)
  have bad: "\<exists>t\<in>set (tensor_devices demo_fw demo_one (world (demo_state [CPU]))). t \<noteq> CUDA 0"
    by (simp add: tensor_devices_def demo_fw_def demo_state_def)
  have good: "\<forall>t\<in>set (tensor_devices demo_fw demo_one (world (demo_state [CUDA 0]))). t = CUDA 0"
    by (simp add: tensor_devices_def demo_fw_def demo_state_def)
  have one: "length (device_ids demo_one) = 1" by (simp add: demo_one_def)
  have c0: "calls (demo_state [CUDA 0]) = []" "dim demo_one = 0"
    "map PInt (device_ids demo_one) = [PInt 0]"
    by (simp_all add: demo_state_def demo_one_def)
  show ?thesis
    using device_check_raises[OF h1 h2, of demo_fw "demo_state [CPU]" "[PInt 7]" "[]"]
      device_check_raises[OF h1 h2, of demo_fw "demo_state [CUDA 0]" "[PInt 7]" "[]"]
      bad good one
    by (simp add: c0)
qed

subsection \<open>C7: \<open>forward\<close> with one device\<close>

text \<open>
  C7, as stated, fails twice. With one device and a parameter on the CPU, \<open>forward\<close>
  raises the RuntimeError of the device check and does not call the module. And the
  single-device return is the general pipeline only as far as the framework makes it so:
  with a \<open>gather\<close> that returns the list of outputs, \<open>forward\<close> returns the module's
  output and the pipeline returns a list holding it.
\<close>

theorem forward_one_device_counterexample:
  "forward demo_fw demo_one [PInt 7] [] (demo_state [CPU]) =
     (Inl (RuntimeError (CUDA 0) CPU), \<lparr>world = [CPU], calls = []\<rparr>)
   \<and> forward demo_fw_list_gather demo_one [PInt 7] [] (demo_state [CUDA 0]) =
     (Inr (PTuple [PInt 7]),
      \<lparr>world = [CUDA 0],
       calls = [Scatter_kwargs [PInt 7] [] (PList [PInt 0]) 0,
                Module_call ''net'' [PInt 7] []]\<rparr>)
   \<and> fst (scatter_replicate_apply_gather demo_fw_list_gather demo_one [PInt 7] []
            (demo_state [CUDA 0])) = Inr (PList [PTuple [PInt 7]])"
  by (simp add: forward_def scatter_replicate_apply_gather_def demo_fw_list_gather_def
      demo_fw_def demo_one_def demo_state_def demo_scatter_def check_devices_def
      tensor_devices_def prog_defs)

text \<open>
  C7, amended. On an instance with exactly one device, once the parameter/buffer device
  check has passed, \<open>forward\<close> returns \<open>self.module\<close> called with \<open>*inputs[0], **kwargs[0]\<close> on the
  scattered inputs; the log gains the scatter and the module call only, so there is no
  replication, parallel apply or gather. This agrees (result and framework state) with the
  pipeline scatter, replicate, parallel_apply, gather whenever, for the one scattered
  chunk, the framework's \<open>replicate\<close> returns the module itself, its
  \<open>parallel_apply\<close> is the module's call on the chunk, and its \<open>gather\<close> returns a
  single output as it is.
\<close>

theorem forward_one_device:
  assumes "length (device_ids self) = 1"
    and "devices_ok fw self (world s)"
    and "scatter_kwargs fw inputs kwargs (PList (map PInt (device_ids self))) (dim self) (world s)
           = (Inr (a # as, k # ks), w1)"
  shows "forward fw self inputs kwargs s =
           (fst (module_forward fw (module self) a k w1),
            \<lparr>world = snd (module_forward fw (module self) a k w1),
             calls = calls s @
               [Scatter_kwargs inputs kwargs (PList (map PInt (device_ids self))) (dim self),
                Module_call (module self) a k]\<rparr>)
       \<and> (as = [] \<and> ks = []
          \<and> replicate_module fw self (module self) (device_ids self) w1 = (Inr [module self], w1)
          \<and> parallel_apply fw self [module self] [a] [k] w1 =
              (case module_forward fw (module self) a k w1 of
                 (Inl e, w) \<Rightarrow> (Inl e, w) | (Inr y, w) \<Rightarrow> (Inr [y], w))
          \<and> output_device self = Some od
          \<and> (\<forall>y w. gather fw self [y] od w = (Inr y, w))
          \<longrightarrow> fst (scatter_replicate_apply_gather fw self inputs kwargs s) =
                fst (forward fw self inputs kwargs s)
              \<and> world (snd (scatter_replicate_apply_gather fw self inputs kwargs s)) =
                world (snd (forward fw self inputs kwargs s)))"
proof -
  from assms(1) have ne: "device_ids self \<noteq> []" by auto
  have fwd: "forward fw self inputs kwargs s =
           (fst (module_forward fw (module self) a k w1),
            \<lparr>world = snd (module_forward fw (module self) a k w1),
             calls = calls s @
               [Scatter_kwargs inputs kwargs (PList (map PInt (device_ids self))) (dim self),
                Module_call (module self) a k]\<rparr>)"
    using assms(1,3) check_devices_pass[OF assms(2)] ne
    by (auto simp add: forward_def prog_defs split: prod.splits)
  have pipe: "fst (scatter_replicate_apply_gather fw self inputs kwargs s) =
                fst (module_forward fw (module self) a k w1)
              \<and> world (snd (scatter_replicate_apply_gather fw self inputs kwargs s)) =
                snd (module_forward fw (module self) a k w1)"
    if "as = []" "ks = []"
      "replicate_module fw self (module self) (device_ids self) w1 = (Inr [module self], w1)"
      "parallel_apply fw self [module self] [a] [k] w1 =
              (case module_forward fw (module self) a k w1 of
                 (Inl e, w) \<Rightarrow> (Inl e, w) | (Inr y, w) \<Rightarrow> (Inr [y], w))"
      "output_device self = Some od"
      "\<forall>y w. gather fw self [y] od w = (Inr y, w)"
    using that assms(1,3)
    by (auto simp add: scatter_replicate_apply_gather_def prog_defs Let_def
        split: prod.splits sum.splits)
  show ?thesis using fwd pipe by simp
qed

text \<open>C7, witness: one device, the parameter on \<open>cuda:0\<close>, in the small framework.\<close>

theorem forward_one_device_witness:
  "forward demo_fw demo_one [PInt 7] [] (demo_state [CUDA 0]) =
     (Inr (PTuple [PInt 7]),
      \<lparr>world = [CUDA 0],
       calls = [Scatter_kwargs [PInt 7] [] (PList [PInt 0]) 0,
                Module_call ''net'' [PInt 7] []]\<rparr>)
   \<and> fst (scatter_replicate_apply_gather demo_fw demo_one [PInt 7] [] (demo_state [CUDA 0])) =
       Inr (PTuple [PInt 7])
   \<and> world (snd (scatter_replicate_apply_gather demo_fw demo_one [PInt 7] []
        (demo_state [CUDA 0]))) = [CUDA 0]"
proof -
  have h1: "length (device_ids demo_one) = 1" by (simp add: demo_one_def)
  have h2: "devices_ok demo_fw demo_one (world (demo_state [CUDA 0]))"
    by (simp add: devices_ok_def tensor_devices_def demo_fw_def demo_one_def demo_state_def)
  have h3: "scatter_kwargs demo_fw [PInt 7] [] (PList (map PInt (device_ids demo_one)))
              (dim demo_one) (world (demo_state [CUDA 0])) = (Inr ([PInt 7] # [], [] # []), [CUDA 0])"
    by (simp add: demo_fw_def demo_one_def demo_state_def demo_scatter_def)
  have laws: "[] = ([]::nat args list) \<and> [] = ([]::nat kwargs list)
          \<and> replicate_module demo_fw demo_one (module demo_one) (device_ids demo_one) [CUDA 0]
              = (Inr [module demo_one], [CUDA 0])
          \<and> parallel_apply demo_fw demo_one [module demo_one] [[PInt 7]] [[]] [CUDA 0] =
              (case module_forward demo_fw (module demo_one) [PInt 7] [] [CUDA 0] of
                 (Inl e, w) \<Rightarrow> (Inl e, w) | (Inr y, w) \<Rightarrow> (Inr [y], w))
          \<and> output_device demo_one = Some 0
          \<and> (\<forall>y w. gather demo_fw demo_one [y] 0 w = (Inr y, w))"
    by (simp add: demo_fw_def demo_one_def)
  have ev: "module_forward demo_fw (module demo_one) [PInt 7] [] [CUDA 0]
              = (Inr (PTuple [PInt 7]), [CUDA 0])"
    by (simp add: demo_fw_def)
  show ?thesis
    using forward_one_device[OF h1 h2 h3, of 0] laws ev
    by (simp add: demo_one_def demo_state_def)
qed

subsection \<open>C8: \<open>scatter\<close>\<close>

text \<open>
  C8. \<open>scatter\<close> is one call of \<open>scatter_kwargs\<close> with the inputs, kwargs and
  targets it was given and \<open>dim = self.dim\<close>: the result and the framework's new state
  are those of \<open>scatter_kwargs\<close>, and the log gains this one call.
\<close>

theorem scatter_delegates:
  "scatter fw self inputs kwargs target s =
     (fst (scatter_kwargs fw inputs kwargs target (dim self) (world s)),
      \<lparr>world = snd (scatter_kwargs fw inputs kwargs target (dim self) (world s)),
       calls = calls s @ [Scatter_kwargs inputs kwargs target (dim self)]\<rparr>)"
  by (simp add: scatter_def invoke_def split: prod.splits)

subsection \<open>C9: the devices of the replicas\<close>

text \<open>
  C9. In a \<open>forward\<close> with more than one device, after the device check has passed and
  \<open>scatter\<close> has returned, the next call replicates the module onto
  \<open>self.device_ids[:len(inputs)]\<close>, the first \<open>len(inputs)\<close> configured devices for the
  scattered \<open>inputs\<close>, and when it returns \<open>parallel_apply\<close> is called with these
  replicas and the scattered inputs and kwargs. There is one replica per chunk when
  \<open>scatter\<close> gave no more chunks than there are devices and \<open>replicate\<close> gave one
  replica per device it was passed.
\<close>

theorem forward_replicates_on_scattered_devices:
  assumes "1 < length (device_ids self)"
    and "devices_ok fw self (world s)"
    and "scatter_kwargs fw inputs kwargs (PList (map PInt (device_ids self))) (dim self) (world s)
           = (Inr (inputs1, kwargs1), w1)"
  shows "(\<exists>rest. calls (snd (forward fw self inputs kwargs s)) =
            calls s @
              Scatter_kwargs inputs kwargs (PList (map PInt (device_ids self))) (dim self) #
              Replicate (module self) (take (length inputs1) (device_ids self)) # rest)
       \<and> (replicate_module fw self (module self) (take (length inputs1) (device_ids self)) w1
            = (Inr replicas, w2) \<longrightarrow>
          (\<exists>rest. calls (snd (forward fw self inputs kwargs s)) =
            calls s @
              Scatter_kwargs inputs kwargs (PList (map PInt (device_ids self))) (dim self) #
              Replicate (module self) (take (length inputs1) (device_ids self)) #
              Parallel_apply replicas inputs1 kwargs1 # rest)
          \<and> (length inputs1 \<le> length (device_ids self)
               \<and> length replicas = length (take (length inputs1) (device_ids self))
              \<longrightarrow> length replicas = length inputs1))"
proof -
  from assms(1) have ne: "device_ids self \<noteq> []" "length (device_ids self) \<noteq> 1" by auto
  show ?thesis
    using assms(3) check_devices_pass[OF assms(2)] ne
    by (auto simp add: forward_def prog_defs Let_def
        split: prod.splits sum.splits option.splits)
qed

text \<open>
  C9, witness: two devices and one input, so one chunk; the module is replicated onto
  \<open>cuda:0\<close> only, not onto both configured devices.
\<close>

theorem forward_replicates_on_scattered_devices_witness:
  "(\<exists>rest. calls (snd (forward demo_fw demo_two [PInt 7] [] (demo_state [CUDA 0]))) =
      Scatter_kwargs [PInt 7] [] (PList [PInt 0, PInt 1]) 0 #
      Replicate ''net'' [0] # Parallel_apply [''net''] [[PInt 7]] [[]] # rest)
   \<and> length [''net''] = length [[PInt 7 :: nat pyval]]
   \<and> take (length [[PInt 7 :: nat pyval]]) (device_ids demo_two) \<noteq> device_ids demo_two"
proof -
  have h1: "1 < length (device_ids demo_two)" by (simp add: demo_two_def)
  have h2: "devices_ok demo_fw demo_two (world (demo_state [CUDA 0]))"
    by (simp add: devices_ok_def tensor_devices_def demo_fw_def demo_two_def demo_state_def)
  have h3: "scatter_kwargs demo_fw [PInt 7] [] (PList (map PInt (device_ids demo_two)))
              (dim demo_two) (world (demo_state [CUDA 0])) = (Inr ([[PInt 7]], [[]]), [CUDA 0])"
    by (simp add: demo_fw_def demo_two_def demo_state_def demo_scatter_def)
  have h4: "replicate_module demo_fw demo_two (module demo_two)
              (take (length [[PInt 7 :: nat pyval]]) (device_ids demo_two)) [CUDA 0]
              = (Inr [''net''], [CUDA 0])"
    by (simp add: demo_fw_def demo_two_def)
  show ?thesis
    using forward_replicates_on_scattered_devices[OF h1 h2 h3, of "[''net'']" "[CUDA 0]"] h4
    by (simp add: demo_two_def demo_state_def)
qed

subsection \<open>C10: \<open>__init__\<close>\<close>

text \<open>
  C10. Without CUDA, \<open>__init__\<close> sets \<open>module\<close>, \<open>device_ids = []\<close> and \<open>dim\<close>,
  leaves \<open>output_device\<close> and \<open>src_device_obj\<close> unset and calls nothing. With CUDA,
  \<open>device_ids = None\<close> is the call with \<open>list(range(device_count))\<close>, and
  \<open>output_device = None\<close> is the call with \<open>device_ids[0]\<close>; when the constructor
  returns, \<open>self.device_ids\<close> are the indices of the given devices,
  \<open>self.output_device\<close> is the index of the output device (of \<open>device_ids[0]\<close> by
  default), \<open>src_device_obj\<close> is \<open>cuda:device_ids[0]\<close>, and with exactly one device the
  last call is \<open>module.cuda(device_ids[0])\<close> (with more, \<open>_check_balance\<close> is the
  only call).
\<close>

theorem init_postconditions:
  "(\<not> cuda_is_available fw \<longrightarrow>
      init fw m ids od d s =
        (Inr \<lparr>module = m, device_ids = [], dim = d,
              output_device = None, src_device_obj = None\<rparr>, s))
   \<and> (cuda_is_available fw \<longrightarrow>
      init fw m None od d s =
        init fw m (Some (map (\<lambda>i. PInt (int i)) [0 ..< cuda_device_count fw])) od d s)
   \<and> (cuda_is_available fw \<longrightarrow>
      init fw m (Some (x # xs)) None d s = init fw m (Some (x # xs)) (Some x) d s)
   \<and> (cuda_is_available fw \<and> init fw m ids od d s = (Inr self, s1)
      \<and> raw = (case ids of None \<Rightarrow> map (\<lambda>i. PInt (int i)) [0 ..< cuda_device_count fw]
                          | Some ds \<Rightarrow> ds) \<longrightarrow>
        module self = m \<and> dim self = d
      \<and> map_raising (get_device_index fw) raw = Inr (device_ids self)
      \<and> device_ids self \<noteq> []
      \<and> (od = None \<longrightarrow> output_device self = Some (hd (device_ids self)))
      \<and> (\<forall>v. od = Some v \<longrightarrow> get_device_index fw v = Inr (the (output_device self)))
      \<and> output_device self \<noteq> None
      \<and> src_device_obj self = Some (CUDA (hd (device_ids self)))
      \<and> (length (device_ids self) = 1 \<longrightarrow>
           calls s1 = calls s @ [Check_balance (device_ids self), Module_cuda m (hd raw)])
      \<and> (length (device_ids self) \<noteq> 1 \<longrightarrow>
           calls s1 = calls s @ [Check_balance (device_ids self)]))"
proof -
  have p1: "\<not> cuda_is_available fw \<longrightarrow>
      init fw m ids od d s =
        (Inr \<lparr>module = m, device_ids = [], dim = d,
              output_device = None, src_device_obj = None\<rparr>, s)"
    by (simp add: init_def ret_def)
  have p2: "cuda_is_available fw \<longrightarrow>
      init fw m None od d s =
        init fw m (Some (map (\<lambda>i. PInt (int i)) [0 ..< cuda_device_count fw])) od d s"
    by (simp add: init_def)
  have p3: "cuda_is_available fw \<longrightarrow>
      init fw m (Some (x # xs)) None d s = init fw m (Some (x # xs)) (Some x) d s"
    by (simp add: init_def item0_def)
  have p4: "cuda_is_available fw \<and> init fw m ids od d s = (Inr self, s1)
      \<and> raw = (case ids of None \<Rightarrow> map (\<lambda>i. PInt (int i)) [0 ..< cuda_device_count fw]
                          | Some ds \<Rightarrow> ds) \<longrightarrow>
        module self = m \<and> dim self = d
      \<and> map_raising (get_device_index fw) raw = Inr (device_ids self)
      \<and> device_ids self \<noteq> []
      \<and> (od = None \<longrightarrow> output_device self = Some (hd (device_ids self)))
      \<and> (\<forall>v. od = Some v \<longrightarrow> get_device_index fw v = Inr (the (output_device self)))
      \<and> output_device self \<noteq> None
      \<and> src_device_obj self = Some (CUDA (hd (device_ids self)))
      \<and> (length (device_ids self) = 1 \<longrightarrow>
           calls s1 = calls s @ [Check_balance (device_ids self), Module_cuda m (hd raw)])
      \<and> (length (device_ids self) \<noteq> 1 \<longrightarrow>
           calls s1 = calls s @ [Check_balance (device_ids self)])"
  proof (intro impI, elim conjE)
    assume av: "cuda_is_available fw" and run: "init fw m ids od d s = (Inr self, s1)"
      and raw: "raw = (case ids of None \<Rightarrow> map (\<lambda>i. PInt (int i)) [0 ..< cuda_device_count fw]
                          | Some ds \<Rightarrow> ds)"
    have "init fw m (Some raw) od d s = (Inr self, s1)"
      using run raw init_default_ids[OF av] by (cases ids) simp_all
    from init_given_ids[OF av this] show "module self = m \<and> dim self = d
      \<and> map_raising (get_device_index fw) raw = Inr (device_ids self)
      \<and> device_ids self \<noteq> []
      \<and> (od = None \<longrightarrow> output_device self = Some (hd (device_ids self)))
      \<and> (\<forall>v. od = Some v \<longrightarrow> get_device_index fw v = Inr (the (output_device self)))
      \<and> output_device self \<noteq> None
      \<and> src_device_obj self = Some (CUDA (hd (device_ids self)))
      \<and> (length (device_ids self) = 1 \<longrightarrow>
           calls s1 = calls s @ [Check_balance (device_ids self), Module_cuda m (hd raw)])
      \<and> (length (device_ids self) \<noteq> 1 \<longrightarrow>
           calls s1 = calls s @ [Check_balance (device_ids self)])" .
  qed
  from p1 p2 p3 p4 show ?thesis by blast
qed

text \<open>
  C10, witness: a framework without CUDA; the small framework with the defaults; the small
  framework with the one device \<open>1\<close>.
\<close>

theorem init_postconditions_witness:
  "init (demo_fw\<lparr>cuda_is_available := False\<rparr>) ''net'' (Some [PInt 1]) None 0 (demo_state [CPU]) =
     (Inr demo_cpu, demo_state [CPU])
   \<and> init demo_fw ''net'' None None 0 (demo_state [CPU]) =
       init demo_fw ''net'' (Some [PInt 0, PInt 1]) None 0 (demo_state [CPU])
   \<and> init demo_fw ''net'' (Some [PInt 1]) None 0 (demo_state [CPU]) =
       init demo_fw ''net'' (Some [PInt 1]) (Some (PInt 1)) 0 (demo_state [CPU])
   \<and> init demo_fw ''net'' None None 0 (demo_state [CPU]) =
       (Inr demo_two, \<lparr>world = [CPU], calls = [Check_balance [0, 1]]\<rparr>)
   \<and> output_device demo_two = Some (hd (device_ids demo_two))
   \<and> src_device_obj demo_two = Some (CUDA (hd (device_ids demo_two)))
   \<and> init demo_fw ''net'' (Some [PInt 1]) (Some (PInt 1)) 0 (demo_state [CPU]) =
       (Inr \<lparr>module = ''net'', device_ids = [1], dim = 0, output_device = Some 1,
             src_device_obj = Some (CUDA 1)\<rparr>,
        \<lparr>world = [CUDA 1], calls = [Check_balance [1], Module_cuda ''net'' (PInt 1)]\<rparr>)"
  using
    init_postconditions[of "demo_fw\<lparr>cuda_is_available := False\<rparr>" "''net''" "Some [PInt 1]" None 0
      "demo_state [CPU]" "PInt 1" "[]" demo_cpu "demo_state [CPU]" "[PInt 1]"]
    init_postconditions[of demo_fw "''net''" None None 0 "demo_state [CPU]" "PInt 1" "[]"
      demo_two "\<lparr>world = [CPU], calls = [Check_balance [0, 1]]\<rparr>" "[PInt 0, PInt 1]"]
    init_postconditions[of demo_fw "''net''" "Some [PInt 1]" "Some (PInt 1)" 0 "demo_state [CPU]"
      "PInt 1" "[]"
      "\<lparr>module = ''net'', device_ids = [1], dim = 0, output_device = Some 1,
             src_device_obj = Some (CUDA 1)\<rparr>"
      "\<lparr>world = [CUDA 1], calls = [Check_balance [1], Module_cuda ''net'' (PInt 1)]\<rparr>" "[PInt 1]"]
    demo_init_none demo_init_one
  by (simp add: demo_fw_def demo_cpu_def demo_two_def demo_state_def upt_rec)

end
